theory Spec2Isabelle
  imports
    Main
    "HOL-Library.Char_ord"
    "HOL-Library.List_Lexorder"
    "HOL-Library.Sublist"
begin

section \<open>The data model of \<^verbatim>\<open>validate_cinema_data.py\<close>\<close>

text \<open>
  The program reads one JSON document, \<^verbatim>\<open>{"cinemas": [{"name": .., "films": [{"title": ..,
  "day": .., "showtimes": [..], ..}]}]}\<close>, and works on the parsed value. A JSON object is a
  record here: every key the code reads is a field of option type (\<open>None\<close>: the key is
  absent), and the keys the code never reads are kept as an association list whose values
  have an arbitrary type \<open>'x\<close>. Values of the keys the code reads have their documented
  type: strings for \<^verbatim>\<open>name\<close>, \<^verbatim>\<open>title\<close> and \<^verbatim>\<open>day\<close>, a list of strings for
  \<^verbatim>\<open>showtimes\<close>, lists of objects for \<^verbatim>\<open>films\<close> and \<^verbatim>\<open>cinemas\<close>. The order of the
  keys inside one object is not part of the model.

  A Python string is a \<open>string\<close>: its UTF-8 bytes. The code compares strings for equality,
  sorts them (Python orders strings by code point, which is the lexicographic order of the
  UTF-8 bytes: \<open>(<)\<close> on \<open>string\<close>) and looks for the ASCII substring \<^verbatim>\<open>Regular\<close>
  (\<^const>\<open>sublist\<close>); it never takes the length of a string.
\<close>

record 'x film =
  title :: "string option"
  day :: "string option"
  showtimes :: "string list option"
  showtime_count :: "int option"
  film_other :: "(string \<times> 'x) list"

record 'x cinema =
  name :: "string option"
  films :: "'x film list option"
  cinema_other :: "(string \<times> 'x) list"

record 'x dataset =
  cinemas :: "'x cinema list option"
  dataset_other :: "(string \<times> 'x) list"

text \<open>\<^verbatim>\<open>d.get(key, default)\<close> on a key of the record.\<close>

definition get_or :: "'a option \<Rightarrow> 'a \<Rightarrow> 'a" where
  "get_or field dflt = (case field of None \<Rightarrow> dflt | Some v \<Rightarrow> v)"

text \<open>
  The top-level value that \<^verbatim>\<open>json.load\<close> returns is an object or something else (an array,
  a string, a number, a boolean, null); the file is unreadable (\<^verbatim>\<open>open\<close> fails), readable but
  not JSON, or readable JSON. The strings are the texts of the exceptions.
\<close>

datatype 'x document = JObject "'x dataset" | NonObject

datatype 'x source = Unreadable string | Unparseable string | Parsed "'x document"

datatype py_exception = OSError string | AttributeError

section \<open>The Fixer: \<^verbatim>\<open>auto_fix_data\<close>\<close>

text \<open>
  One constructor for each f-string appended to \<^verbatim>\<open>fixes_applied\<close>:
  \<^verbatim>\<open>Removed duplicate showtimes from '{title}'\<close>,
  \<^verbatim>\<open>Limited '{title}' from {len(showtimes)} to {max_showtimes} showtimes\<close>,
  \<^verbatim>\<open>Removed '{title}' (no showtimes)\<close> and
  \<^verbatim>\<open>{cinema_name}: {len(original_films)} -> {len(fixed_films)} films\<close>.
\<close>

datatype fix_entry =
    RemovedDuplicates string
  | Limited string nat nat
  | RemovedFilm string
  | CinemaSummary string nat nat

text \<open>\<^verbatim>\<open>max_showtimes = 3 if 'Regular' in cinema_name else 5\<close>\<close>

definition max_showtimes :: "string \<Rightarrow> nat" where
  "max_showtimes cinema_name = (if sublist ''Regular'' cinema_name then 3 else 5)"

text \<open>
  The body of the loop over the films of a cinema (lines 122 to 146). The result is the
  film to append to \<^verbatim>\<open>fixed_films\<close>, or \<open>None\<close> after \<^verbatim>\<open>continue\<close>, and the log.
  \<^verbatim>\<open>sorted(list(set(showtimes)))\<close> is \<open>sort (remdups showtimes)\<close>.
\<close>

definition fix_film ::
  "string \<Rightarrow> 'x film \<Rightarrow> fix_entry list \<Rightarrow> 'x film option \<times> fix_entry list" where
  "fix_film cinema_name film fixes_applied =
    (let ttl = get_or (title film) ''Unknown'';
         shows = get_or (showtimes film) [];
         unique_showtimes = sort (remdups shows);
         (fixes1, shows1) =
           (if length unique_showtimes < length shows
            then (fixes_applied @ [RemovedDuplicates ttl], unique_showtimes)
            else (fixes_applied, shows));
         (fixes2, shows2) =
           (if length shows1 > max_showtimes cinema_name
            then (fixes1 @ [Limited ttl (length shows1) (max_showtimes cinema_name)],
                  take (max_showtimes cinema_name) shows1)
            else (fixes1, shows1))
     in if length shows2 = 0
        then (None, fixes2 @ [RemovedFilm ttl])
        else (Some (film\<lparr>showtimes := Some shows2,
                         showtime_count := Some (int (length shows2))\<rparr>), fixes2))"

text \<open>The loop \<^verbatim>\<open>for film in original_films\<close>, on the state \<^verbatim>\<open>(fixed_films, fixes_applied)\<close>.\<close>

fun fix_films ::
  "string \<Rightarrow> 'x film list \<Rightarrow> 'x film list \<Rightarrow> fix_entry list \<Rightarrow> 'x film list \<times> fix_entry list"
where
  "fix_films cinema_name [] fixed_films fixes_applied = (fixed_films, fixes_applied)"
| "fix_films cinema_name (film # rest) fixed_films fixes_applied =
    (case fix_film cinema_name film fixes_applied of
       (None, fixes') \<Rightarrow> fix_films cinema_name rest fixed_films fixes'
     | (Some film', fixes') \<Rightarrow> fix_films cinema_name rest (fixed_films @ [film']) fixes')"

text \<open>The body of the loop over the cinemas (lines 117 to 150).\<close>

definition fix_cinema :: "'x cinema \<Rightarrow> fix_entry list \<Rightarrow> 'x cinema \<times> fix_entry list" where
  "fix_cinema cinema fixes_applied =
    (let cinema_name = get_or (name cinema) ''Unknown'';
         original_films = get_or (films cinema) [];
         (fixed_films, fixes') = fix_films cinema_name original_films [] fixes_applied
     in (cinema\<lparr>films := Some fixed_films\<rparr>,
         fixes' @ [CinemaSummary cinema_name (length original_films) (length fixed_films)]))"

text \<open>
  The loop \<^verbatim>\<open>for cinema in data.get('cinemas', [])\<close>. Each cinema is updated in place, so
  the list under \<^verbatim>\<open>cinemas\<close> holds the updated cinemas, in the same positions.
\<close>

fun fix_cinemas ::
  "'x cinema list \<Rightarrow> 'x cinema list \<Rightarrow> fix_entry list \<Rightarrow> 'x cinema list \<times> fix_entry list"
where
  "fix_cinemas [] fixed fixes_applied = (fixed, fixes_applied)"
| "fix_cinemas (cinema # rest) fixed fixes_applied =
    (case fix_cinema cinema fixes_applied of
       (cinema', fixes') \<Rightarrow> fix_cinemas rest (fixed @ [cinema']) fixes')"

text \<open>
  Lines 114 to 150 on the parsed object: without the key \<^verbatim>\<open>cinemas\<close> the loop runs over
  the default \<^verbatim>\<open>[]\<close> and the data stays as it is.
\<close>

definition fix_data :: "'x dataset \<Rightarrow> 'x dataset \<times> fix_entry list" where
  "fix_data data =
    (case cinemas data of
       None \<Rightarrow> (data, [])
     | Some cs \<Rightarrow>
         (case fix_cinemas cs [] [] of
            (cs', fixes_applied) \<Rightarrow> (data\<lparr>cinemas := Some cs'\<rparr>, fixes_applied)))"

text \<open>
  \<^verbatim>\<open>auto_fix_data(data_file, backup)\<close>. The outcome is an uncaught exception, or the value
  returned together with the content of the data file afterwards, the content of the backup
  file if one was written, and the log that is printed. \<^verbatim>\<open>shutil.copy\<close> runs before the
  \<^verbatim>\<open>try\<close> and raises when the data file cannot be opened. The writes themselves (of the
  backup and of the fixed data) are taken to succeed.
\<close>

record 'x fix_outcome =
  returned :: bool
  data_file :: "'x source"
  backup_file :: "'x source option"
  printed :: "fix_entry list"

definition auto_fix_data :: "'x source \<Rightarrow> bool \<Rightarrow> py_exception + 'x fix_outcome" where
  "auto_fix_data src backup =
    (case (if backup
           then (case src of Unreadable msg \<Rightarrow> Inl (OSError msg) | _ \<Rightarrow> Inr (Some src))
           else Inr None) of
       Inl e \<Rightarrow> Inl e
     | Inr bak \<Rightarrow>
        (case src of
           Unreadable msg \<Rightarrow>
             Inr \<lparr>returned = False, data_file = src, backup_file = bak, printed = []\<rparr>
         | Unparseable msg \<Rightarrow>
             Inr \<lparr>returned = False, data_file = src, backup_file = bak, printed = []\<rparr>
         | Parsed NonObject \<Rightarrow> Inl AttributeError
         | Parsed (JObject data) \<Rightarrow>
             (case fix_data data of
                (data', fixes_applied) \<Rightarrow>
                  Inr \<lparr>returned = True, data_file = Parsed (JObject data'),
                       backup_file = bak, printed = fixes_applied\<rparr>)))"

section \<open>The Validator: \<^verbatim>\<open>validate_cinema_data\<close>\<close>

text \<open>
  One constructor for each f-string appended to \<^verbatim>\<open>issues\<close>, with the values it formats:
  \<^verbatim>\<open>{cinema_name} - {day}: '{title}' has {len(showtimes)} showtimes (unrealistic)\<close>,
  \<^verbatim>\<open>{cinema_name} - {day}: '{title}' has duplicate showtimes\<close>,
  \<^verbatim>\<open>{cinema_name} - {day}: {len(day_films)} films (too many for one day)\<close>,
  \<^verbatim>\<open>{cinema_name} - {day}: Duplicate films: {duplicates}\<close> and
  \<^verbatim>\<open>Total films across all cinemas: {total_films} (unrealistically high)\<close>;
  and to \<^verbatim>\<open>warnings\<close>:
  \<^verbatim>\<open>{cinema_name} - {day}: '{title}' has no showtimes\<close> and
  \<^verbatim>\<open>{cinema_name} - {day}: {len(day_films)} films (high but possible)\<close>.
  The list \<^verbatim>\<open>day_issues\<close> is written and never read; it is left out.
\<close>

datatype issue =
    TooManyShowtimes string string string nat
  | DuplicateShowtimes string string string
  | TooManyFilms string string nat
  | DuplicateFilms string string "(string \<times> nat) list"
  | TotalFilms nat

datatype warning =
    NoShowtimes string string string
  | HighFilmCount string string nat

text \<open>
  A Python dict keeps its keys in the order of their first insertion: an association list
  with one entry for each key. \<open>dict_update k f dflt d\<close> is \<^verbatim>\<open>d[k] = f(d[k])\<close> on a
  \<^verbatim>\<open>defaultdict\<close> whose missing values are \<open>dflt\<close>: it serves for
  \<^verbatim>\<open>films_by_day[day].append(film)\<close>, for \<^verbatim>\<open>title_counts[t] += 1\<close> and, with a constant
  \<open>f\<close>, for the assignment \<^verbatim>\<open>stats[cinema_name] = {...}\<close>.
\<close>

fun dict_update :: "'k \<Rightarrow> ('v \<Rightarrow> 'v) \<Rightarrow> 'v \<Rightarrow> ('k \<times> 'v) list \<Rightarrow> ('k \<times> 'v) list" where
  "dict_update k f dflt [] = [(k, f dflt)]"
| "dict_update k f dflt ((k', v) # kvs) =
    (if k' = k then (k', f v) # kvs else (k', v) # dict_update k f dflt kvs)"

record cinema_stats =
  total_films :: nat
  days :: nat
  films_by_day :: "(string \<times> nat) list"

record summary =
  total_issues :: nat
  total_warnings :: nat
  summary_total_films :: nat

record report =
  valid :: bool
  timestamp :: string
  stats :: "(string \<times> cinema_stats) list"
  issues :: "issue list"
  warnings :: "warning list"
  summary :: summary

text \<open>The loop of lines 30 to 32: group the films of a cinema by day.\<close>

fun group_by_day ::
  "'x film list \<Rightarrow> (string \<times> 'x film list) list \<Rightarrow> (string \<times> 'x film list) list" where
  "group_by_day [] by_day = by_day"
| "group_by_day (film # rest) by_day =
    group_by_day rest
      (dict_update (get_or (day film) ''unknown'') (\<lambda>day_films. day_films @ [film]) [] by_day)"

text \<open>The body of the loop over the films of a day (lines 46 to 61).\<close>

definition check_film ::
  "string \<Rightarrow> string \<Rightarrow> 'x film \<Rightarrow> issue list \<times> warning list \<Rightarrow> issue list \<times> warning list"
where
  "check_film cinema_name dy film acc =
    (case acc of (iss, wrn) \<Rightarrow>
      (let shows = get_or (showtimes film) [];
           ttl = get_or (title film) ''Unknown'';
           iss1 = (if length shows > 4
                   then iss @ [TooManyShowtimes cinema_name dy ttl (length shows)] else iss);
           iss2 = (if length shows \<noteq> length (remdups shows)
                   then iss1 @ [DuplicateShowtimes cinema_name dy ttl] else iss1);
           wrn1 = (if length shows = 0
                   then wrn @ [NoShowtimes cinema_name dy ttl] else wrn)
       in (iss2, wrn1)))"

fun check_films ::
  "string \<Rightarrow> string \<Rightarrow> 'x film list \<Rightarrow> issue list \<times> warning list \<Rightarrow> issue list \<times> warning list"
where
  "check_films cinema_name dy [] acc = acc"
| "check_films cinema_name dy (film # rest) acc =
    check_films cinema_name dy rest (check_film cinema_name dy film acc)"

text \<open>The loop of lines 70 to 72.\<close>

fun count_titles :: "'x film list \<Rightarrow> (string \<times> nat) list \<Rightarrow> (string \<times> nat) list" where
  "count_titles [] title_counts = title_counts"
| "count_titles (film # rest) title_counts =
    count_titles rest
      (dict_update (get_or (title film) ''Unknown'') (\<lambda>n. n + 1) 0 title_counts)"

text \<open>The body of the loop over the days of a cinema (lines 42 to 76).\<close>

definition check_day ::
  "string \<Rightarrow> string \<times> 'x film list \<Rightarrow> issue list \<times> warning list \<Rightarrow> issue list \<times> warning list"
where
  "check_day cinema_name day_group acc =
    (case day_group of (dy, day_films) \<Rightarrow>
      (case check_films cinema_name dy day_films acc of (iss, wrn) \<Rightarrow>
        (let (iss1, wrn1) =
               (if length day_films > 30
                then (iss @ [TooManyFilms cinema_name dy (length day_films)], wrn)
                else if length day_films > 20
                then (iss, wrn @ [HighFilmCount cinema_name dy (length day_films)])
                else (iss, wrn));
             title_counts = count_titles day_films [];
             duplicates = filter (\<lambda>(t, n). n > 1) title_counts
         in (if duplicates \<noteq> []
             then iss1 @ [DuplicateFilms cinema_name dy duplicates] else iss1, wrn1))))"

fun check_days ::
  "string \<Rightarrow> (string \<times> 'x film list) list \<Rightarrow> issue list \<times> warning list
     \<Rightarrow> issue list \<times> warning list"
where
  "check_days cinema_name [] acc = acc"
| "check_days cinema_name (day_group # rest) acc =
    check_days cinema_name rest (check_day cinema_name day_group acc)"

text \<open>
  The body of the loop over the cinemas (lines 25 to 76), on the state
  \<^verbatim>\<open>(stats, issues, warnings)\<close>.
\<close>

definition validate_cinema ::
  "'x cinema \<Rightarrow> (string \<times> cinema_stats) list \<times> issue list \<times> warning list
     \<Rightarrow> (string \<times> cinema_stats) list \<times> issue list \<times> warning list"
where
  "validate_cinema cinema st =
    (case st of (sts, acc) \<Rightarrow>
      (let cinema_name = get_or (name cinema) ''Unknown'';
           fs = get_or (films cinema) [];
           by_day = group_by_day fs [];
           entry = \<lparr>total_films = length fs, days = length by_day,
                    films_by_day = map (\<lambda>(dy, day_films). (dy, length day_films)) by_day\<rparr>
       in (dict_update cinema_name (\<lambda>_. entry) entry sts,
           check_days cinema_name by_day acc)))"

fun validate_cinemas ::
  "'x cinema list \<Rightarrow> (string \<times> cinema_stats) list \<times> issue list \<times> warning list
     \<Rightarrow> (string \<times> cinema_stats) list \<times> issue list \<times> warning list"
where
  "validate_cinemas [] st = st"
| "validate_cinemas (cinema # rest) st = validate_cinemas rest (validate_cinema cinema st)"

text \<open>
  Lines 20 to 97 on the parsed object. \<open>now\<close> is \<^verbatim>\<open>datetime.now().isoformat()\<close>, the one
  value the report takes from outside the data.
\<close>

definition validate_data :: "'x dataset \<Rightarrow> string \<Rightarrow> report" where
  "validate_data data now =
    (case validate_cinemas (get_or (cinemas data) []) ([], [], []) of
       (sts, iss, wrn) \<Rightarrow>
        (let total = sum_list (map (\<lambda>(_, s). total_films s) sts);
             iss' = (if total > 500 then iss @ [TotalFilms total] else iss)
         in \<lparr>valid = (length iss' = 0), timestamp = now, stats = sts,
              issues = iss', warnings = wrn,
              summary = \<lparr>total_issues = length iss', total_warnings = length wrn,
                         summary_total_films = total\<rparr>\<rparr>))"

text \<open>
  \<^verbatim>\<open>validate_cinema_data(data_file)\<close>: an uncaught exception, the failure value
  \<^verbatim>\<open>{"valid": False, "error": "Cannot read JSON file: {e}"}\<close> with the text of \<open>e\<close>, or the
  report.
\<close>

datatype validation = Failure string | Report report

definition validate_cinema_data :: "'x source \<Rightarrow> string \<Rightarrow> py_exception + validation" where
  "validate_cinema_data src now =
    (case src of
       Unreadable msg \<Rightarrow> Inr (Failure msg)
     | Unparseable msg \<Rightarrow> Inr (Failure msg)
     | Parsed NonObject \<Rightarrow> Inl AttributeError
     | Parsed (JObject data) \<Rightarrow> Inr (Report (validate_data data now)))"

section \<open>What the loops of the Fixer compute\<close>

text \<open>
  The steps of \<^const>\<open>fix_film\<close> on their own: the list after Fix 1, the list after Fix 2,
  the log entries of one film, the test of Fix 3 on the input (\<open>has_showtimes\<close>) and the
  film that is kept. They are shown below to describe \<^const>\<open>fix_film\<close> exactly.
\<close>

definition dedup_showtimes :: "string list \<Rightarrow> string list" where
  "dedup_showtimes shows =
    (if length (sort (remdups shows)) < length shows then sort (remdups shows) else shows)"

definition fixed_showtimes :: "string \<Rightarrow> string list \<Rightarrow> string list" where
  "fixed_showtimes cinema_name shows =
    (if length (dedup_showtimes shows) > max_showtimes cinema_name
     then take (max_showtimes cinema_name) (dedup_showtimes shows)
     else dedup_showtimes shows)"

definition film_log :: "string \<Rightarrow> 'x film \<Rightarrow> fix_entry list" where
  "film_log cinema_name film =
    (let ttl = get_or (title film) ''Unknown''; shows = get_or (showtimes film) [] in
     (if length (sort (remdups shows)) < length shows then [RemovedDuplicates ttl] else []) @
     (if length (dedup_showtimes shows) > max_showtimes cinema_name
      then [Limited ttl (length (dedup_showtimes shows)) (max_showtimes cinema_name)] else []) @
     (if shows = [] then [RemovedFilm ttl] else []))"

definition has_showtimes :: "'x film \<Rightarrow> bool" where
  "has_showtimes film = (get_or (showtimes film) [] \<noteq> [])"

definition restamp :: "string \<Rightarrow> 'x film \<Rightarrow> 'x film" where
  "restamp cinema_name film =
    film\<lparr>showtimes := Some (fixed_showtimes cinema_name (get_or (showtimes film) [])),
         showtime_count :=
           Some (int (length (fixed_showtimes cinema_name (get_or (showtimes film) []))))\<rparr>"

definition fixed_cinema :: "'x cinema \<Rightarrow> 'x cinema" where
  "fixed_cinema cinema =
    cinema\<lparr>films := Some (map (restamp (get_or (name cinema) ''Unknown''))
                              (filter has_showtimes (get_or (films cinema) [])))\<rparr>"

definition cinema_log :: "'x cinema \<Rightarrow> fix_entry list" where
  "cinema_log cinema =
    concat (map (film_log (get_or (name cinema) ''Unknown'')) (get_or (films cinema) [])) @
    [CinemaSummary (get_or (name cinema) ''Unknown'') (length (get_or (films cinema) []))
       (length (filter has_showtimes (get_or (films cinema) [])))]"

text \<open>
  What a retained film must satisfy, given the cap of its cinema and the showtime list it
  had in the input.
\<close>

definition showtimes_fixed :: "nat \<Rightarrow> string list \<Rightarrow> 'x film \<Rightarrow> bool" where
  "showtimes_fixed cap shows_in film' =
    (case showtimes film' of
       None \<Rightarrow> False
     | Some st \<Rightarrow>
         distinct st \<and> length st \<le> cap \<and> showtime_count film' = Some (int (length st)) \<and>
         (if distinct shows_in then st = take cap shows_in else sorted_wrt (<) st))"

text \<open>The per-cinema summary line of a cinema whose films are all kept.\<close>

definition summary_line :: "'x cinema \<Rightarrow> fix_entry" where
  "summary_line cinema =
    CinemaSummary (get_or (name cinema) ''Unknown'') (length (get_or (films cinema) []))
      (length (get_or (films cinema) []))"

text \<open>Example data.\<close>

definition film_of :: "string \<Rightarrow> string list \<Rightarrow> unit film" where
  "film_of ttl shows =
    \<lparr>title = Some ttl, day = Some ''Mon'', showtimes = Some shows, showtime_count = None,
     film_other = [(''screen'', ())]\<rparr>"

definition cinema_of :: "string \<Rightarrow> unit film list \<Rightarrow> unit cinema" where
  "cinema_of nm fs = \<lparr>name = Some nm, films = Some fs, cinema_other = [(''city'', ())]\<rparr>"

definition dataset_of :: "unit cinema list \<Rightarrow> unit dataset" where
  "dataset_of cs = \<lparr>cinemas = Some cs, dataset_other = [(''scraped'', ())]\<rparr>"

definition example_data :: "unit dataset" where
  "example_data =
    dataset_of
      [cinema_of ''Regular Cinema''
         [film_of ''Dune'' [''19:00'', ''19:00'', ''21:00'', ''21:00'', ''23:00''],
          film_of ''Heat'' [],
          film_of ''Tron'' [''21:00'', ''19:00'']]]"

definition example_fixed :: "unit dataset" where
  "example_fixed =
    dataset_of
      [cinema_of ''Regular Cinema''
         [(film_of ''Dune'' [''19:00'', ''21:00'', ''23:00''])\<lparr>showtime_count := Some 3\<rparr>,
          (film_of ''Tron'' [''21:00'', ''19:00''])\<lparr>showtime_count := Some 2\<rparr>]]"


section \<open>What the loops of the Validator compute\<close>

text \<open>
  The day of a film and the name of a cinema, with their defaults; the distinct elements
  of a list in the order of their first appearance; and the groups of a cinema: one for
  each day, in the order in which the days first appear, each with its films in film order.
\<close>

definition day_of :: "'x film \<Rightarrow> string" where
  "day_of film = get_or (day film) ''unknown''"

definition name_of :: "'x cinema \<Rightarrow> string" where
  "name_of cinema = get_or (name cinema) ''Unknown''"

primrec first_seen :: "'a list \<Rightarrow> 'a list" where
  "first_seen [] = []"
| "first_seen (x # xs) = x # filter (\<lambda>y. y \<noteq> x) (first_seen xs)"

definition day_groups :: "'x film list \<Rightarrow> (string \<times> 'x film list) list" where
  "day_groups fs =
    map (\<lambda>d. (d, filter (\<lambda>f. day_of f = d) fs)) (first_seen (map day_of fs))"

text \<open>
  The messages in the order of the rules: for each film of a group the issues of rules 1
  and 2 and the warning of rule 3; then for the group the issue or the warning of rule 4
  and the issue of rule 5; group after group, cinema after cinema.
\<close>

definition film_issues :: "string \<Rightarrow> string \<Rightarrow> 'x film \<Rightarrow> issue list" where
  "film_issues cinema_name dy film =
    (let shows = get_or (showtimes film) []; ttl = get_or (title film) ''Unknown'' in
     (if length shows > 4 then [TooManyShowtimes cinema_name dy ttl (length shows)] else []) @
     (if length shows \<noteq> length (remdups shows)
      then [DuplicateShowtimes cinema_name dy ttl] else []))"

definition film_warnings :: "string \<Rightarrow> string \<Rightarrow> 'x film \<Rightarrow> warning list" where
  "film_warnings cinema_name dy film =
    (if length (get_or (showtimes film) []) = 0
     then [NoShowtimes cinema_name dy (get_or (title film) ''Unknown'')] else [])"

definition count_issues :: "string \<Rightarrow> string \<Rightarrow> 'x film list \<Rightarrow> issue list" where
  "count_issues cinema_name dy day_films =
    (if length day_films > 30 then [TooManyFilms cinema_name dy (length day_films)] else [])"

definition count_warnings :: "string \<Rightarrow> string \<Rightarrow> 'x film list \<Rightarrow> warning list" where
  "count_warnings cinema_name dy day_films =
    (if length day_films > 30 then []
     else if length day_films > 20 then [HighFilmCount cinema_name dy (length day_films)]
     else [])"

definition duplicate_issues :: "string \<Rightarrow> string \<Rightarrow> 'x film list \<Rightarrow> issue list" where
  "duplicate_issues cinema_name dy day_films =
    (let duplicates = filter (\<lambda>(t, n). n > 1) (count_titles day_films []) in
     if duplicates \<noteq> [] then [DuplicateFilms cinema_name dy duplicates] else [])"

definition day_issues :: "string \<Rightarrow> string \<times> 'x film list \<Rightarrow> issue list" where
  "day_issues cinema_name day_group =
    (case day_group of (dy, day_films) \<Rightarrow>
      concat (map (film_issues cinema_name dy) day_films) @
      count_issues cinema_name dy day_films @
      duplicate_issues cinema_name dy day_films)"

definition day_warnings :: "string \<Rightarrow> string \<times> 'x film list \<Rightarrow> warning list" where
  "day_warnings cinema_name day_group =
    (case day_group of (dy, day_films) \<Rightarrow>
      concat (map (film_warnings cinema_name dy) day_films) @
      count_warnings cinema_name dy day_films)"

definition cinema_issues :: "'x cinema \<Rightarrow> issue list" where
  "cinema_issues cinema =
    concat (map (day_issues (get_or (name cinema) ''Unknown''))
              (day_groups (get_or (films cinema) [])))"

definition cinema_warnings :: "'x cinema \<Rightarrow> warning list" where
  "cinema_warnings cinema =
    concat (map (day_warnings (get_or (name cinema) ''Unknown''))
              (day_groups (get_or (films cinema) [])))"

text \<open>
  The entry of \<^verbatim>\<open>stats\<close> for a cinema and the table after all the cinemas. The table has
  one entry for each name: a later cinema of the same name replaces the entry of an earlier
  one. \<open>counted_cinemas\<close> are the cinemas whose entries remain (the last of each name), and
  \<open>counted_total\<close> is the number of their films.
\<close>

definition stats_entry :: "'x cinema \<Rightarrow> cinema_stats" where
  "stats_entry cinema =
    \<lparr>total_films = length (get_or (films cinema) []),
     days = length (day_groups (get_or (films cinema) [])),
     films_by_day = map (\<lambda>(dy, day_films). (dy, length day_films))
                      (day_groups (get_or (films cinema) []))\<rparr>"

fun stats_after ::
  "'x cinema list \<Rightarrow> (string \<times> cinema_stats) list \<Rightarrow> (string \<times> cinema_stats) list" where
  "stats_after [] sts = sts"
| "stats_after (cinema # rest) sts =
    stats_after rest
      (dict_update (get_or (name cinema) ''Unknown'') (\<lambda>_. stats_entry cinema)
         (stats_entry cinema) sts)"

definition stats_total :: "(string \<times> cinema_stats) list \<Rightarrow> nat" where
  "stats_total sts = sum_list (map (\<lambda>(_, s). total_films s) sts)"

fun counted_cinemas :: "'x cinema list \<Rightarrow> 'x cinema list" where
  "counted_cinemas [] = []"
| "counted_cinemas (cinema # rest) =
    (if name_of cinema \<in> set (map name_of rest) then counted_cinemas rest
     else cinema # counted_cinemas rest)"

definition counted_total :: "'x cinema list \<Rightarrow> nat" where
  "counted_total cs = sum_list (map (\<lambda>c. length (get_or (films c) [])) (counted_cinemas cs))"

text \<open>The messages of rule 6 and of rule 4.\<close>

fun is_total_issue :: "issue \<Rightarrow> bool" where
  "is_total_issue (TotalFilms _) = True"
| "is_total_issue _ = False"

fun is_count_issue :: "issue \<Rightarrow> bool" where
  "is_count_issue (TooManyFilms _ _ _) = True"
| "is_count_issue _ = False"

fun is_count_warning :: "warning \<Rightarrow> bool" where
  "is_count_warning (HighFilmCount _ _ _) = True"
| "is_count_warning _ = False"

text \<open>A film, a cinema and a dataset with every missing key set to its default.\<close>

definition film_defaults :: "'x film \<Rightarrow> 'x film" where
  "film_defaults film =
    film\<lparr>title := Some (get_or (title film) ''Unknown''),
         day := Some (get_or (day film) ''unknown''),
         showtimes := Some (get_or (showtimes film) [])\<rparr>"

definition cinema_defaults :: "'x cinema \<Rightarrow> 'x cinema" where
  "cinema_defaults cinema =
    cinema\<lparr>name := Some (get_or (name cinema) ''Unknown''),
           films := Some (map film_defaults (get_or (films cinema) []))\<rparr>"

definition data_defaults :: "'x dataset \<Rightarrow> 'x dataset" where
  "data_defaults data =
    data\<lparr>cinemas := Some (map cinema_defaults (get_or (cinemas data) []))\<rparr>"

text \<open>Example data of the Validator.\<close>

definition film_on :: "string \<Rightarrow> string \<Rightarrow> string list \<Rightarrow> unit film" where
  "film_on dy ttl shows =
    \<lparr>title = Some ttl, day = Some dy, showtimes = Some shows, showtime_count = None,
     film_other = []\<rparr>"

definition listing_data :: "unit dataset" where
  "listing_data =
    dataset_of
      [cinema_of ''Odeon''
         [film_on ''Mon'' ''Alien'' [''10:00'', ''12:00'', ''14:00'', ''16:00'', ''10:00''],
          film_on ''Tue'' ''Brazil'' [],
          film_on ''Mon'' ''Alien'' [''20:00'']],
       cinema_of ''Vue'' [film_on ''Tue'' ''Casino'' [''18:00'', ''18:00'']]]"

definition sparse_data :: "unit dataset" where
  "sparse_data =
    \<lparr>cinemas = Some [\<lparr>name = None,
                       films = Some [\<lparr>title = None, day = None, showtimes = None,
                                      showtime_count = None, film_other = []\<rparr>],
                       cinema_other = []\<rparr>,
                     \<lparr>name = None, films = None, cinema_other = []\<rparr>],
     dataset_other = []\<rparr>"

definition same_name_data :: "unit dataset" where
  "same_name_data =
    dataset_of [cinema_of ''Odeon'' (replicate 500 (film_on ''Mon'' ''Alien'' [''10:00''])),
                cinema_of ''Odeon'' [film_on ''Tue'' ''Brazil'' [''10:00'']]]"

definition big_data :: "nat \<Rightarrow> unit dataset" where
  "big_data n =
    dataset_of [cinema_of ''Odeon'' (replicate n (film_on ''Mon'' ''Alien'' [''10:00'']))]"

definition busy_data :: "unit dataset" where
  "busy_data =
    dataset_of
      [cinema_of ''Odeon''
         (replicate 31 (film_on ''Mon'' ''Alien'' [''10:00'']) @
          replicate 25 (film_on ''Tue'' ''Brazil'' [''10:00''])),
       cinema_of ''Vue'' (replicate 20 (film_on ''Mon'' ''Casino'' [''10:00'']))]"

section \<open>Properties of the Fixer\<close>

lemma max_showtimes_pos: "0 < max_showtimes cn"
  by (simp add: max_showtimes_def)

lemma sort_remdups_Nil: "sort (remdups xs) = [] \<longleftrightarrow> xs = []"
proof -
  have "sort (remdups xs) = [] \<longleftrightarrow> set (sort (remdups xs)) = {}"
    by (simp only: set_empty)
  then show ?thesis by simp
qed

lemma dedup_showtimes_Nil [simp]: "dedup_showtimes shows = [] \<longleftrightarrow> shows = []"
  by (simp add: dedup_showtimes_def sort_remdups_Nil)

lemma fixed_showtimes_Nil [simp]: "fixed_showtimes cn shows = [] \<longleftrightarrow> shows = []"
  using max_showtimes_pos [of cn] by (auto simp: fixed_showtimes_def)

lemma fix_film_eq:
  "fix_film cn film log =
    (if has_showtimes film then Some (restamp cn film) else None, log @ film_log cn film)"
  using fixed_showtimes_Nil [of cn "get_or (showtimes film) []"]
  unfolding fix_film_def film_log_def has_showtimes_def restamp_def fixed_showtimes_def
    dedup_showtimes_def Let_def
  by (auto split: if_splits)

lemma fix_films_eq:
  "fix_films cn fs fixed log =
    (fixed @ map (restamp cn) (filter has_showtimes fs), log @ concat (map (film_log cn) fs))"
  by (induction fs arbitrary: fixed log) (simp_all add: fix_film_eq)

lemma fix_cinema_eq: "fix_cinema cinema log = (fixed_cinema cinema, log @ cinema_log cinema)"
  by (simp add: fix_cinema_def fix_films_eq fixed_cinema_def cinema_log_def Let_def)

lemma fix_cinemas_eq:
  "fix_cinemas cs fixed log = (fixed @ map fixed_cinema cs, log @ concat (map cinema_log cs))"
  by (induction cs arbitrary: fixed log) (simp_all add: fix_cinema_eq)

lemma fix_data_eq:
  "fix_data data =
    (case cinemas data of
       None \<Rightarrow> (data, [])
     | Some cs \<Rightarrow> (data\<lparr>cinemas := Some (map fixed_cinema cs)\<rparr>, concat (map cinema_log cs)))"
  by (simp add: fix_data_def fix_cinemas_eq split: option.splits)

lemma remdups_shorter_iff: "length (remdups xs) < length xs \<longleftrightarrow> \<not> distinct xs"
  using length_remdups_leq [of xs] length_remdups_eq [of xs] remdups_id_iff_distinct [of xs]
  by linarith

lemma dedup_showtimes_distinct: "distinct st \<Longrightarrow> dedup_showtimes st = st"
  by (simp add: dedup_showtimes_def remdups_shorter_iff)

lemma dedup_showtimes_dups: "\<not> distinct st \<Longrightarrow> dedup_showtimes st = sort (remdups st)"
  by (simp add: dedup_showtimes_def remdups_shorter_iff)

lemma distinct_dedup_showtimes: "distinct (dedup_showtimes st)"
  by (cases "distinct st") (simp_all add: dedup_showtimes_distinct dedup_showtimes_dups)

lemma fixed_showtimes_take:
  "fixed_showtimes cn st = take (max_showtimes cn) (dedup_showtimes st)"
  by (simp add: fixed_showtimes_def)

lemma strict_sorted_take: "sorted_wrt (<) xs \<Longrightarrow> sorted_wrt (<) (take n xs)"
  by (metis append_take_drop_id sorted_wrt_append)

lemma showtimes_fixed_restamp:
  "showtimes_fixed (max_showtimes cn) (get_or (showtimes film) []) (restamp cn film)"
proof (cases "distinct (get_or (showtimes film) [])")
  case True
  then show ?thesis
    by (simp add: showtimes_fixed_def restamp_def fixed_showtimes_take dedup_showtimes_distinct)
next
  case False
  have "sorted_wrt (<) (sort (remdups (get_or (showtimes film) [])))"
    by (simp add: strict_sorted_iff)
  with False show ?thesis
    by (simp add: showtimes_fixed_def restamp_def fixed_showtimes_take dedup_showtimes_dups
        strict_sorted_take)
qed

lemma name_fixed_cinema [simp]: "name (fixed_cinema c) = name c"
  by (simp add: fixed_cinema_def)

lemma films_fixed_cinema:
  "get_or (films (fixed_cinema c)) [] =
     map (restamp (get_or (name c) ''Unknown'')) (filter has_showtimes (get_or (films c) []))"
  by (simp add: fixed_cinema_def get_or_def)

lemma cinemas_fix_data:
  "get_or (cinemas (fst (fix_data data))) [] = map fixed_cinema (get_or (cinemas data) [])"
  by (simp add: fix_data_eq get_or_def split: option.splits)

lemma has_showtimes_restamp [simp]: "has_showtimes (restamp cn f) \<longleftrightarrow> has_showtimes f"
  by (simp add: has_showtimes_def restamp_def get_or_def)

lemma length_fixed_showtimes: "length (fixed_showtimes cn st) \<le> max_showtimes cn"
  by (simp add: fixed_showtimes_take)

lemma distinct_fixed_showtimes: "distinct (fixed_showtimes cn st)"
  by (simp add: fixed_showtimes_take distinct_dedup_showtimes)

lemma fixed_showtimes_idem:
  "fixed_showtimes cn (fixed_showtimes cn st) = fixed_showtimes cn st"
  using length_fixed_showtimes [of cn st]
  by (simp add: fixed_showtimes_take [of cn "fixed_showtimes cn st"]
      dedup_showtimes_distinct distinct_fixed_showtimes)

lemma restamp_idem: "restamp cn (restamp cn f) = restamp cn f"
  by (simp add: restamp_def get_or_def fixed_showtimes_idem)

lemma film_log_restamp: "has_showtimes f \<Longrightarrow> film_log cn (restamp cn f) = []"
  using length_fixed_showtimes [of cn "get_or (showtimes f) []"]
    distinct_fixed_showtimes [of cn "get_or (showtimes f) []"]
  by (simp add: film_log_def restamp_def get_or_def has_showtimes_def remdups_shorter_iff
      dedup_showtimes_distinct split: option.splits)

lemma filter_has_showtimes_restamp:
  "filter has_showtimes (map (restamp cn) (filter has_showtimes fs)) =
     map (restamp cn) (filter has_showtimes fs)"
  by (induction fs) simp_all

lemma fixed_cinema_idem: "fixed_cinema (fixed_cinema c) = fixed_cinema c"
  by (simp add: fixed_cinema_def get_or_def filter_has_showtimes_restamp restamp_idem)

lemma concat_film_log_restamp:
  "concat (map (film_log cn) (map (restamp cn) (filter has_showtimes fs))) = []"
  by (induction fs) (simp_all add: film_log_restamp)

lemma cinema_log_fixed_cinema: "cinema_log (fixed_cinema c) = [summary_line (fixed_cinema c)]"
  by (simp add: cinema_log_def summary_line_def films_fixed_cinema concat_film_log_restamp
      filter_has_showtimes_restamp del: map_map)

lemma fix_data_idem:
  "fix_data (fst (fix_data data)) =
    (fst (fix_data data), map summary_line (get_or (cinemas (fst (fix_data data))) []))"
proof (cases "cinemas data")
  case None
  then show ?thesis by (simp add: fix_data_eq get_or_def)
next
  case (Some cs)
  have "concat (map cinema_log (map fixed_cinema cs)) = map summary_line (map fixed_cinema cs)"
    by (induction cs) (simp_all add: cinema_log_fixed_cinema)
  moreover have "map fixed_cinema (map fixed_cinema cs) = map fixed_cinema cs"
    by (induction cs) (simp_all add: fixed_cinema_idem)
  ultimately show ?thesis
    using Some by (simp add: fix_data_eq get_or_def del: map_map)
qed

lemma auto_fix_data_object:
  "auto_fix_data (Parsed (JObject data)) backup =
    Inr \<lparr>returned = True, data_file = Parsed (JObject (fst (fix_data data))),
         backup_file = (if backup then Some (Parsed (JObject data)) else None),
         printed = snd (fix_data data)\<rparr>"
  by (simp add: auto_fix_data_def split: prod.splits)

lemma fix_example_data:
  "fix_data example_data =
    (example_fixed,
     [RemovedDuplicates ''Dune'', RemovedFilm ''Heat'', CinemaSummary ''Regular Cinema'' 3 2])"
  by code_simp

subsection \<open>The showtime cap\<close>




subsection \<open>The films that are kept\<close>

text \<open>
  C2, as the code has it. For every dataset and every film in the output of the Fixer, the
  showtime list has no duplicate, its length is at most the cap of the cinema
  (\<^const>\<open>max_showtimes\<close> of its name) and \<^verbatim>\<open>showtime_count\<close> is that length. The films of
  the output are the input films with showtimes, in order, and each is related to its input
  by \<^const>\<open>showtimes_fixed\<close>: when the input list had a duplicate the output list is strictly
  ascending, and when it had none the output list is the first \<open>cap\<close> entries of the input
  list, in the order of the input.
\<close>

theorem retained_films_fixed:
  "(\<forall>c' \<in> set (get_or (cinemas (fst (fix_data data))) []).
      \<forall>f' \<in> set (get_or (films c') []).
        \<exists>st. showtimes f' = Some st \<and> distinct st \<and>
             length st \<le> max_showtimes (get_or (name c') ''Unknown'') \<and>
             showtime_count f' = Some (int (length st))) \<and>
   list_all2
     (\<lambda>c c'. name c' = name c \<and>
        list_all2 (\<lambda>f f'. showtimes_fixed (max_showtimes (get_or (name c) ''Unknown''))
                            (get_or (showtimes f) []) f')
          (filter has_showtimes (get_or (films c) [])) (get_or (films c') []))
     (get_or (cinemas data) []) (get_or (cinemas (fst (fix_data data))) [])"
proof
  show "\<forall>c' \<in> set (get_or (cinemas (fst (fix_data data))) []).
      \<forall>f' \<in> set (get_or (films c') []).
        \<exists>st. showtimes f' = Some st \<and> distinct st \<and>
             length st \<le> max_showtimes (get_or (name c') ''Unknown'') \<and>
             showtime_count f' = Some (int (length st))"
  proof (intro ballI)
    fix c' f'
    assume "c' \<in> set (get_or (cinemas (fst (fix_data data))) [])"
      and f': "f' \<in> set (get_or (films c') [])"
    then obtain c where c': "c' = fixed_cinema c"
      by (auto simp: cinemas_fix_data)
    from f' obtain f where "f' = restamp (get_or (name c) ''Unknown'') f"
      unfolding c' films_fixed_cinema by auto
    then show "\<exists>st. showtimes f' = Some st \<and> distinct st \<and>
             length st \<le> max_showtimes (get_or (name c') ''Unknown'') \<and>
             showtime_count f' = Some (int (length st))"
      by (simp add: c' restamp_def distinct_fixed_showtimes length_fixed_showtimes)
  qed
next
  show "list_all2
     (\<lambda>c c'. name c' = name c \<and>
        list_all2 (\<lambda>f f'. showtimes_fixed (max_showtimes (get_or (name c) ''Unknown''))
                            (get_or (showtimes f) []) f')
          (filter has_showtimes (get_or (films c) [])) (get_or (films c') []))
     (get_or (cinemas data) []) (get_or (cinemas (fst (fix_data data))) [])"
    by (simp add: cinemas_fix_data films_fixed_cinema list_all2_map2 list_all2_same
      showtimes_fixed_restamp)
qed

text \<open>
  On \<^const>\<open>example_data\<close>: \<^verbatim>\<open>Dune\<close> loses its duplicates and is sorted, \<^verbatim>\<open>Heat\<close> is dropped
  and \<^verbatim>\<open>Tron\<close> keeps its two showtimes as they were.
\<close>

theorem retained_films_fixed_witness:
  "fst (fix_data example_data) = example_fixed \<and>
   showtimes_fixed 3 [''19:00'', ''19:00'', ''21:00'', ''21:00'', ''23:00'']
     ((film_of ''Dune'' [''19:00'', ''21:00'', ''23:00''])\<lparr>showtime_count := Some 3\<rparr>) \<and>
   showtimes_fixed 3 [''21:00'', ''19:00'']
     ((film_of ''Tron'' [''21:00'', ''19:00''])\<lparr>showtime_count := Some 2\<rparr>)"
proof -
  have ev: "fst (fix_data example_data) = example_fixed"
    by (simp add: fix_example_data)
  have cap: "max_showtimes ''Regular Cinema'' = 3"
    by code_simp
  have flt: "has_showtimes (film_of t st) \<longleftrightarrow> st \<noteq> []" for t st
    by (simp add: has_showtimes_def film_of_def get_or_def)
  have shw: "get_or (showtimes (film_of t st)) [] = st" for t st
    by (simp add: film_of_def get_or_def)
  from retained_films_fixed [of example_data]
  have "list_all2
     (\<lambda>c c'. name c' = name c \<and>
        list_all2 (\<lambda>f f'. showtimes_fixed (max_showtimes (get_or (name c) ''Unknown''))
                            (get_or (showtimes f) []) f')
          (filter has_showtimes (get_or (films c) [])) (get_or (films c') []))
     (get_or (cinemas example_data) []) (get_or (cinemas example_fixed) [])"
    unfolding ev by (rule conjunct2)
  then have
    "showtimes_fixed 3 [''19:00'', ''19:00'', ''21:00'', ''21:00'', ''23:00'']
       ((film_of ''Dune'' [''19:00'', ''21:00'', ''23:00''])\<lparr>showtime_count := Some 3\<rparr>) \<and>
     showtimes_fixed 3 [''21:00'', ''19:00'']
       ((film_of ''Tron'' [''21:00'', ''19:00''])\<lparr>showtime_count := Some 2\<rparr>)"
    by (simp add: example_data_def example_fixed_def dataset_of_def cinema_of_def
        get_or_def [of "Some x" for x] cap flt shw)
  with ev show ?thesis by (rule conjI)
qed

text \<open>
  The claim as stated asks for a strictly ascending list in every retained film. \<^verbatim>\<open>Tron\<close>
  has no duplicate, so line 130 does not run and its list stays \<^verbatim>\<open>["21:00", "19:00"]\<close>.
\<close>

theorem ascending_counterexample:
  "fst (fix_data example_data) = example_fixed \<and>
   map showtimes (get_or (films (hd (get_or (cinemas example_fixed) []))) []) =
     [Some [''19:00'', ''21:00'', ''23:00''], Some [''21:00'', ''19:00'']] \<and>
   \<not> sorted_wrt (<) [''21:00'', ''19:00'']"
  by (simp add: fix_example_data) code_simp

subsection \<open>Idempotence\<close>

text \<open>
  C3. For every dataset, the Fixer run on its own output returns that output unchanged, and
  its log is exactly one summary line for each cinema, with equal counts before and after.
  The same holds of \<^const>\<open>auto_fix_data\<close> on the file that the first run wrote.
\<close>

theorem fixer_idempotent:
  "fix_data (fst (fix_data data)) =
     (fst (fix_data data), map summary_line (get_or (cinemas (fst (fix_data data))) [])) \<and>
   auto_fix_data (Parsed (JObject (fst (fix_data data)))) backup =
     Inr \<lparr>returned = True, data_file = Parsed (JObject (fst (fix_data data))),
          backup_file = (if backup then Some (Parsed (JObject (fst (fix_data data)))) else None),
          printed = map summary_line (get_or (cinemas (fst (fix_data data))) [])\<rparr>"
  by (simp add: auto_fix_data_object fix_data_idem)

theorem fixer_idempotent_witness:
  "fst (fix_data example_data) = example_fixed \<and>
   fix_data example_fixed = (example_fixed, [CinemaSummary ''Regular Cinema'' 2 2]) \<and>
   auto_fix_data (Parsed (JObject example_fixed)) True =
     Inr \<lparr>returned = True, data_file = Parsed (JObject example_fixed),
          backup_file = Some (Parsed (JObject example_fixed)),
          printed = [CinemaSummary ''Regular Cinema'' 2 2]\<rparr>"
proof -
  have ev: "fst (fix_data example_data) = example_fixed"
    by (simp add: fix_example_data)
  have lines: "map summary_line (get_or (cinemas example_fixed) []) =
      [CinemaSummary ''Regular Cinema'' 2 2]"
    by code_simp
  from fixer_idempotent [of example_data True] show ?thesis
    unfolding ev lines by (simp add: ev)
qed

subsection \<open>Fields that no rule touches\<close>

text \<open>
  C9. For every dataset, the Fixer keeps the other keys of the dataset and the presence of
  \<^verbatim>\<open>cinemas\<close>; the cinemas of the output are those of the input, position by position,
  with the same name and the same other keys; and the films of each output cinema are the
  input films with showtimes, position by position, with the same title, day and other
  keys.
\<close>

theorem untouched_fields_preserved:
  "dataset_other (fst (fix_data data)) = dataset_other data \<and>
   (cinemas (fst (fix_data data)) = None \<longleftrightarrow> cinemas data = None) \<and>
   list_all2
     (\<lambda>c c'. name c' = name c \<and> cinema_other c' = cinema_other c \<and>
        list_all2 (\<lambda>f f'. title f' = title f \<and> day f' = day f \<and> film_other f' = film_other f)
          (filter has_showtimes (get_or (films c) [])) (get_or (films c') []))
     (get_or (cinemas data) []) (get_or (cinemas (fst (fix_data data))) [])"
proof (intro conjI)
  show "dataset_other (fst (fix_data data)) = dataset_other data"
    by (simp add: fix_data_eq split: option.splits)
  show "cinemas (fst (fix_data data)) = None \<longleftrightarrow> cinemas data = None"
    by (simp add: fix_data_eq split: option.splits)
  have "cinema_other (fixed_cinema c) = cinema_other c" for c :: "'a cinema"
    by (simp add: fixed_cinema_def)
  moreover have "title (restamp cn f) = title f \<and> day (restamp cn f) = day f \<and>
      film_other (restamp cn f) = film_other f" for cn and f :: "'a film"
    by (simp add: restamp_def)
  ultimately show "list_all2
     (\<lambda>c c'. name c' = name c \<and> cinema_other c' = cinema_other c \<and>
        list_all2 (\<lambda>f f'. title f' = title f \<and> day f' = day f \<and> film_other f' = film_other f)
          (filter has_showtimes (get_or (films c) [])) (get_or (films c') []))
     (get_or (cinemas data) []) (get_or (cinemas (fst (fix_data data))) [])"
    by (simp add: cinemas_fix_data films_fixed_cinema list_all2_map2 list_all2_same)
qed

theorem untouched_fields_preserved_witness:
  "fst (fix_data example_data) = example_fixed \<and>
   dataset_other example_fixed = [(''scraped'', ())] \<and>
   map name (get_or (cinemas example_fixed) []) = [Some ''Regular Cinema''] \<and>
   map cinema_other (get_or (cinemas example_fixed) []) = [[(''city'', ())]] \<and>
   list_all2 (\<lambda>f f'. title f' = title f \<and> day f' = day f \<and> film_other f' = film_other f)
     [film_of ''Dune'' [''19:00'', ''19:00'', ''21:00'', ''21:00'', ''23:00''],
      film_of ''Tron'' [''21:00'', ''19:00'']]
     [(film_of ''Dune'' [''19:00'', ''21:00'', ''23:00''])\<lparr>showtime_count := Some 3\<rparr>,
      (film_of ''Tron'' [''21:00'', ''19:00''])\<lparr>showtime_count := Some 2\<rparr>]"
proof -
  have ev: "fst (fix_data example_data) = example_fixed"
    by (simp add: fix_example_data)
  have flt: "has_showtimes (film_of t st) \<longleftrightarrow> st \<noteq> []" for t st
    by (simp add: has_showtimes_def film_of_def get_or_def)
  from untouched_fields_preserved [of example_data]
  have "dataset_other example_fixed = dataset_other example_data \<and>
   (cinemas example_fixed = None \<longleftrightarrow> cinemas example_data = None) \<and>
   list_all2
     (\<lambda>c c'. name c' = name c \<and> cinema_other c' = cinema_other c \<and>
        list_all2 (\<lambda>f f'. title f' = title f \<and> day f' = day f \<and> film_other f' = film_other f)
          (filter has_showtimes (get_or (films c) [])) (get_or (films c') []))
     (get_or (cinemas example_data) []) (get_or (cinemas example_fixed) [])"
    unfolding ev .
  then have "dataset_other example_fixed = [(''scraped'', ())] \<and>
   map name (get_or (cinemas example_fixed) []) = [Some ''Regular Cinema''] \<and>
   map cinema_other (get_or (cinemas example_fixed) []) = [[(''city'', ())]] \<and>
   list_all2 (\<lambda>f f'. title f' = title f \<and> day f' = day f \<and> film_other f' = film_other f)
     [film_of ''Dune'' [''19:00'', ''19:00'', ''21:00'', ''21:00'', ''23:00''],
      film_of ''Tron'' [''21:00'', ''19:00'']]
     [(film_of ''Dune'' [''19:00'', ''21:00'', ''23:00''])\<lparr>showtime_count := Some 3\<rparr>,
      (film_of ''Tron'' [''21:00'', ''19:00''])\<lparr>showtime_count := Some 2\<rparr>]"
    by (simp add: example_data_def example_fixed_def dataset_of_def cinema_of_def
        get_or_def [of "Some x" for x] flt)
  with ev show ?thesis by (rule conjI)
qed

subsection \<open>Cinemas stay, films are only dropped\<close>

text \<open>
  C10. For every dataset, the output has as many cinemas as the input, and each output
  cinema is the input cinema at the same position but for its film list. Its films are,
  position by position, the input films of that cinema whose showtime list is not empty
  after Fix 1 and Fix 2, each changed in \<^verbatim>\<open>showtimes\<close> and \<^verbatim>\<open>showtime_count\<close> only: no
  film is added, reordered or moved to another cinema.
\<close>

theorem cinemas_kept_films_only_dropped:
  "length (get_or (cinemas (fst (fix_data data))) []) = length (get_or (cinemas data) []) \<and>
   list_all2
     (\<lambda>c c'. c' = c\<lparr>films := films c'\<rparr> \<and>
        list_all2 (\<lambda>f f'. f' = f\<lparr>showtimes := showtimes f', showtime_count := showtime_count f'\<rparr>)
          (filter (\<lambda>f. fixed_showtimes (get_or (name c) ''Unknown'') (get_or (showtimes f) []) \<noteq> [])
             (get_or (films c) []))
          (get_or (films c') []))
     (get_or (cinemas data) []) (get_or (cinemas (fst (fix_data data))) [])"
proof -
  have flt: "filter (\<lambda>f. fixed_showtimes cn (get_or (showtimes f) []) \<noteq> []) fs =
      filter has_showtimes fs" for cn and fs :: "'a film list"
    by (rule filter_cong) (simp_all add: has_showtimes_def)
  have "list_all2
     (\<lambda>c c'. c' = c\<lparr>films := films c'\<rparr> \<and>
        list_all2 (\<lambda>f f'. f' = f\<lparr>showtimes := showtimes f', showtime_count := showtime_count f'\<rparr>)
          (filter (\<lambda>f. fixed_showtimes (get_or (name c) ''Unknown'') (get_or (showtimes f) []) \<noteq> [])
             (get_or (films c) []))
          (get_or (films c') []))
     cs (map fixed_cinema cs)" for cs :: "'a cinema list"
    unfolding flt list_all2_map2 films_fixed_cinema
    by (rule list_all2_refl) (simp add: list_all2_same restamp_def fixed_cinema_def)
  then show ?thesis
    by (simp add: cinemas_fix_data)
qed

theorem cinemas_kept_films_only_dropped_witness:
  "fst (fix_data example_data) = example_fixed \<and>
   length (get_or (cinemas example_fixed) []) = length (get_or (cinemas example_data) []) \<and>
   list_all2 (\<lambda>f f'. f' = f\<lparr>showtimes := showtimes f', showtime_count := showtime_count f'\<rparr>)
     [film_of ''Dune'' [''19:00'', ''19:00'', ''21:00'', ''21:00'', ''23:00''],
      film_of ''Tron'' [''21:00'', ''19:00'']]
     (get_or (films (hd (get_or (cinemas example_fixed) []))) [])"
proof -
  have ev: "fst (fix_data example_data) = example_fixed"
    by (simp add: fix_example_data)
  have flt: "fixed_showtimes cn (get_or (showtimes (film_of t st)) []) = [] \<longleftrightarrow> st = []"
    for cn t st
    by (simp add: film_of_def get_or_def)
  from cinemas_kept_films_only_dropped [of example_data]
  have "length (get_or (cinemas example_fixed) []) = length (get_or (cinemas example_data) []) \<and>
   list_all2
     (\<lambda>c c'. c' = c\<lparr>films := films c'\<rparr> \<and>
        list_all2 (\<lambda>f f'. f' = f\<lparr>showtimes := showtimes f', showtime_count := showtime_count f'\<rparr>)
          (filter (\<lambda>f. fixed_showtimes (get_or (name c) ''Unknown'') (get_or (showtimes f) []) \<noteq> [])
             (get_or (films c) []))
          (get_or (films c') []))
     (get_or (cinemas example_data) []) (get_or (cinemas example_fixed) [])"
    unfolding ev .
  then have
    "length (get_or (cinemas example_fixed) []) = length (get_or (cinemas example_data) []) \<and>
     list_all2 (\<lambda>f f'. f' = f\<lparr>showtimes := showtimes f', showtime_count := showtime_count f'\<rparr>)
       [film_of ''Dune'' [''19:00'', ''19:00'', ''21:00'', ''21:00'', ''23:00''],
        film_of ''Tron'' [''21:00'', ''19:00'']]
       (get_or (films (hd (get_or (cinemas example_fixed) []))) [])"
    by (simp add: example_data_def example_fixed_def dataset_of_def cinema_of_def
        get_or_def [of "Some x" for x] flt del: fixed_showtimes_Nil)
  with ev show ?thesis by (rule conjI)
qed

subsection \<open>A data file that cannot be read\<close>

text \<open>
  C6. The claim is that the Fixer returns false on every source that cannot be read or
  parsed, with or without a backup. With \<^verbatim>\<open>backup=True\<close> (the default) and a file that cannot
  be opened, \<^verbatim>\<open>shutil.copy\<close> on line 104 raises before the \<^verbatim>\<open>try\<close> of line 107 is entered,
  and the exception leaves \<^verbatim>\<open>auto_fix_data\<close>. Without the backup, and on a file that is
  readable and not JSON, the function returns \<^verbatim>\<open>False\<close>.
\<close>

theorem unreadable_with_backup_raises:
  "auto_fix_data (Unreadable msg) True = Inl (OSError msg) \<and>
   auto_fix_data (Unreadable msg) False =
     Inr \<lparr>returned = False, data_file = Unreadable msg, backup_file = None, printed = []\<rparr> \<and>
   auto_fix_data (Unparseable msg) backup =
     Inr \<lparr>returned = False, data_file = Unparseable msg,
          backup_file = (if backup then Some (Unparseable msg) else None), printed = []\<rparr>"
  by (simp add: auto_fix_data_def)

section \<open>Properties of the Validator\<close>

subsection \<open>The loops in closed form\<close>

lemma dict_update_absent:
  "k \<notin> fst ` set kvs \<Longrightarrow> dict_update k f dflt kvs = kvs @ [(k, f dflt)]"
  by (induction kvs) auto

lemma dict_update_present:
  "k \<in> fst ` set kvs \<Longrightarrow> distinct (map fst kvs) \<Longrightarrow>
   dict_update k f dflt kvs = map (\<lambda>(k', v). if k' = k then (k', f v) else (k', v)) kvs"
proof (induction kvs)
  case Nil
  then show ?case by simp
next
  case (Cons kv kvs)
  obtain k' v where kv: "kv = (k', v)" by (cases kv)
  show ?case
  proof (cases "k' = k")
    case True
    with Cons.prems kv have "k \<notin> fst ` set kvs" by auto
    then have "map (\<lambda>(k', v). if k' = k then (k', f v) else (k', v)) kvs = kvs"
      by (induction kvs) auto
    with True kv show ?thesis by simp
  next
    case False
    with Cons kv show ?thesis by auto
  qed
qed

lemma keys_dict_update:
  "map fst (dict_update k f dflt kvs) =
    (if k \<in> fst ` set kvs then map fst kvs else map fst kvs @ [k])"
  by (induction kvs) force+

lemma distinct_keys_dict_update:
  "distinct (map fst kvs) \<Longrightarrow> distinct (map fst (dict_update k f dflt kvs))"
  by (auto simp: keys_dict_update)

lemma first_seen_filter: "first_seen (filter P xs) = filter P (first_seen xs)"
proof (induction xs)
  case Nil
  then show ?case by simp
next
  case (Cons x xs)
  show ?case
  proof (cases "P x")
    case True
    with Cons show ?thesis by (simp add: conj_commute)
  next
    case False
    then have "filter P (first_seen xs) = filter P (filter (\<lambda>y. y \<noteq> x) (first_seen xs))"
      unfolding filter_filter by (intro filter_cong) auto
    with False Cons show ?thesis by simp
  qed
qed

lemma set_first_seen [simp]: "set (first_seen xs) = set xs"
  by (induction xs) auto

lemma distinct_first_seen [simp]: "distinct (first_seen xs)"
  by (induction xs) auto

lemma day_groups_Nil [simp]: "day_groups [] = []"
  by (simp add: day_groups_def)

lemma day_groups_Cons:
  "day_groups (f # fs) =
    (day_of f, f # filter (\<lambda>g. day_of g = day_of f) fs) #
    day_groups (filter (\<lambda>g. day_of g \<noteq> day_of f) fs)"
proof -
  have m: "map day_of (filter (\<lambda>g. day_of g \<noteq> day_of f) fs) =
           filter (\<lambda>d. d \<noteq> day_of f) (map day_of fs)"
    by (simp add: filter_map comp_def)
  have "map (\<lambda>d. (d, filter (\<lambda>g. day_of g = d) (f # fs))) ds =
        map (\<lambda>d. (d, filter (\<lambda>g. day_of g = d) (filter (\<lambda>g. day_of g \<noteq> day_of f) fs))) ds"
    if "day_of f \<notin> set ds" for ds
    using that by (induction ds) (auto intro: filter_cong)
  from this [of "filter (\<lambda>d. d \<noteq> day_of f) (first_seen (map day_of fs))"]
  show ?thesis
    by (simp add: day_groups_def m first_seen_filter)
qed

lemma group_by_day_eq:
  "distinct (map fst acc) \<Longrightarrow>
   group_by_day fs acc =
     map (\<lambda>(k, g). (k, g @ filter (\<lambda>f. day_of f = k) fs)) acc @
     day_groups (filter (\<lambda>f. day_of f \<notin> fst ` set acc) fs)"
proof (induction fs arbitrary: acc)
  case Nil
  then show ?case by (simp add: case_prod_unfold)
next
  case (Cons f fs)
  let ?d = "day_of f"
  let ?acc' = "dict_update ?d (\<lambda>day_films. day_films @ [f]) [] acc"
  have step: "group_by_day (f # fs) acc = group_by_day fs ?acc'"
    by (simp add: day_of_def)
  have dist': "distinct (map fst ?acc')"
    using Cons.prems by (rule distinct_keys_dict_update)
  show ?case
  proof (cases "?d \<in> fst ` set acc")
    case True
    have acc': "?acc' = map (\<lambda>(k', v). if k' = ?d then (k', v @ [f]) else (k', v)) acc"
      using True Cons.prems by (rule dict_update_present)
    have keys: "fst ` set ?acc' = fst ` set acc"
      using True keys_dict_update [of ?d "\<lambda>day_films. day_films @ [f]" "[]" acc]
      by (metis list.set_map)
    have "group_by_day fs ?acc' =
        map (\<lambda>(k, g). (k, g @ filter (\<lambda>f. day_of f = k) fs)) ?acc' @
        day_groups (filter (\<lambda>f. day_of f \<notin> fst ` set acc) fs)"
      using Cons.IH [OF dist'] unfolding keys .
    moreover have "map (\<lambda>(k, g). (k, g @ filter (\<lambda>f. day_of f = k) fs)) ?acc' =
        map (\<lambda>(k, g). (k, g @ filter (\<lambda>g. day_of g = k) (f # fs))) acc"
      unfolding acc' by (auto simp: case_prod_unfold)
    ultimately show ?thesis
      using True step by simp
  next
    case False
    have acc': "?acc' = acc @ [(?d, [f])]"
      using False by (simp add: dict_update_absent)
    have "group_by_day fs ?acc' =
        map (\<lambda>(k, g). (k, g @ filter (\<lambda>f. day_of f = k) fs)) ?acc' @
        day_groups (filter (\<lambda>f. day_of f \<notin> fst ` set ?acc') fs)"
      using Cons.IH [OF dist'] .
    moreover have "map (\<lambda>(k, g). (k, g @ filter (\<lambda>f. day_of f = k) fs)) acc =
        map (\<lambda>(k, g). (k, g @ filter (\<lambda>g. day_of g = k) (f # fs))) acc"
      using False by (auto simp: case_prod_unfold)
    moreover have "filter (\<lambda>g. day_of g \<notin> fst ` set ?acc') fs =
        filter (\<lambda>g. day_of g \<noteq> ?d) (filter (\<lambda>g. day_of g \<notin> fst ` set acc) fs)"
      unfolding acc' filter_filter by (intro filter_cong) auto
    moreover have "filter (\<lambda>g. day_of g = ?d) (filter (\<lambda>g. day_of g \<notin> fst ` set acc) fs) =
        filter (\<lambda>g. day_of g = ?d) fs"
      unfolding filter_filter using False by (intro filter_cong) force+
    ultimately show ?thesis
      using False step by (simp add: acc' day_groups_Cons)
  qed
qed

lemma group_by_day_day_groups: "group_by_day fs [] = day_groups fs"
  using group_by_day_eq [of "[]" fs] by simp

lemma check_film_eq:
  "check_film cn dy film (iss, wrn) =
    (iss @ film_issues cn dy film, wrn @ film_warnings cn dy film)"
  by (simp add: check_film_def film_issues_def film_warnings_def Let_def)

lemma check_films_eq:
  "check_films cn dy fs (iss, wrn) =
    (iss @ concat (map (film_issues cn dy) fs), wrn @ concat (map (film_warnings cn dy) fs))"
  by (induction fs arbitrary: iss wrn) (simp_all add: check_film_eq)

lemma check_day_eq:
  "check_day cn grp (iss, wrn) = (iss @ day_issues cn grp, wrn @ day_warnings cn grp)"
  by (cases grp)
    (simp add: check_day_def check_films_eq day_issues_def day_warnings_def count_issues_def
      count_warnings_def duplicate_issues_def Let_def)

lemma check_days_eq:
  "check_days cn grps (iss, wrn) =
    (iss @ concat (map (day_issues cn) grps), wrn @ concat (map (day_warnings cn) grps))"
  by (induction grps arbitrary: iss wrn) (simp_all add: check_day_eq)

lemma validate_cinema_eq:
  "validate_cinema c (sts, iss, wrn) =
    (dict_update (get_or (name c) ''Unknown'') (\<lambda>_. stats_entry c) (stats_entry c) sts,
     iss @ cinema_issues c, wrn @ cinema_warnings c)"
  by (simp add: validate_cinema_def group_by_day_day_groups check_days_eq cinema_issues_def
      cinema_warnings_def stats_entry_def Let_def)

lemma validate_cinemas_eq:
  "validate_cinemas cs (sts, iss, wrn) =
    (stats_after cs sts, iss @ concat (map cinema_issues cs),
     wrn @ concat (map cinema_warnings cs))"
  by (induction cs arbitrary: sts iss wrn) (simp_all add: validate_cinema_eq)

lemma filter_dict_update_other:
  "\<not> P k \<Longrightarrow> filter (\<lambda>(k', _). P k') (dict_update k f dflt kvs) = filter (\<lambda>(k', _). P k') kvs"
  by (induction kvs) auto

lemma stats_total_filter_dict_update:
  "P k \<Longrightarrow> distinct (map fst sts) \<Longrightarrow>
   stats_total (filter (\<lambda>(k', _). P k') (dict_update k (\<lambda>_. e) e sts)) =
     total_films e + stats_total (filter (\<lambda>(k', _). P k' \<and> k' \<noteq> k) sts)"
proof (induction sts)
  case Nil
  then show ?case by (simp add: stats_total_def)
next
  case (Cons kv sts)
  obtain k' v where kv: "kv = (k', v)" by (cases kv)
  show ?case
  proof (cases "k' = k")
    case True
    with Cons.prems kv have "k \<notin> fst ` set sts" by auto
    then have "filter (\<lambda>(k', _). P k' \<and> k' \<noteq> k) sts = filter (\<lambda>(k', _). P k') sts"
      by (intro filter_cong) force+
    with True kv Cons.prems show ?thesis by (simp add: stats_total_def)
  next
    case False
    with Cons kv show ?thesis by (simp add: stats_total_def)
  qed
qed

lemma stats_total_stats_after:
  "distinct (map fst sts) \<Longrightarrow>
   stats_total (stats_after cs sts) =
     counted_total cs +
     stats_total (filter (\<lambda>(k, _). k \<notin> set (map name_of cs)) sts)"
proof (induction cs arbitrary: sts)
  case Nil
  then show ?case by (simp add: counted_total_def case_prod_unfold)
next
  case (Cons c cs)
  let ?k = "name_of c"
  let ?sts' = "dict_update ?k (\<lambda>_. stats_entry c) (stats_entry c) sts"
  have dist': "distinct (map fst ?sts')"
    using Cons.prems by (rule distinct_keys_dict_update)
  have step: "stats_total (stats_after (c # cs) sts) =
      counted_total cs + stats_total (filter (\<lambda>(k, _). k \<notin> set (map name_of cs)) ?sts')"
    using Cons.IH [OF dist'] by (simp add: name_of_def)
  show ?case
  proof (cases "?k \<in> set (map name_of cs)")
    case True
    then have "filter (\<lambda>(k, _). k \<notin> set (map name_of cs)) ?sts' =
        filter (\<lambda>(k, _). k \<notin> set (map name_of cs)) sts"
      by (intro filter_dict_update_other) simp
    moreover have "filter (\<lambda>(k, _). k \<notin> set (map name_of (c # cs))) sts =
        filter (\<lambda>(k, _). k \<notin> set (map name_of cs)) sts"
      using True by (intro filter_cong) auto
    ultimately show ?thesis
      using True step by (simp add: counted_total_def)
  next
    case False
    then have "stats_total (filter (\<lambda>(k, _). k \<notin> set (map name_of cs)) ?sts') =
        total_films (stats_entry c) +
        stats_total (filter (\<lambda>(k, _). k \<notin> set (map name_of cs) \<and> k \<noteq> ?k) sts)"
      using Cons.prems by (intro stats_total_filter_dict_update)
    moreover have "filter (\<lambda>(k, _). k \<notin> set (map name_of (c # cs))) sts =
        filter (\<lambda>(k, _). k \<notin> set (map name_of cs) \<and> k \<noteq> ?k) sts"
      by (intro filter_cong) auto
    ultimately show ?thesis
      using False step by (simp add: counted_total_def stats_entry_def)
  qed
qed

lemma stats_total_counted: "stats_total (stats_after cs []) = counted_total cs"
  using stats_total_stats_after [of "[]" cs] by (simp add: stats_total_def)

lemma validate_data_eq:
  "validate_data data now =
    (let cs = get_or (cinemas data) [];
         iss = concat (map cinema_issues cs) @
               (if counted_total cs > 500 then [TotalFilms (counted_total cs)] else []);
         wrn = concat (map cinema_warnings cs)
     in \<lparr>valid = (iss = []), timestamp = now, stats = stats_after cs [],
          issues = iss, warnings = wrn,
          summary = \<lparr>total_issues = length iss, total_warnings = length wrn,
                     summary_total_films = counted_total cs\<rparr>\<rparr>)"
  using stats_total_counted [of "get_or (cinemas data) []"]
  by (simp add: validate_data_def validate_cinemas_eq stats_total_def Let_def)

lemma issues_validate_data:
  "issues (validate_data data now) =
    concat (map cinema_issues (get_or (cinemas data) [])) @
    (if counted_total (get_or (cinemas data) []) > 500
     then [TotalFilms (counted_total (get_or (cinemas data) []))] else [])"
  by (simp add: validate_data_eq Let_def)

lemma warnings_validate_data:
  "warnings (validate_data data now) = concat (map cinema_warnings (get_or (cinemas data) []))"
  by (simp add: validate_data_eq Let_def)

lemma no_total_in_film_issues: "filter is_total_issue (film_issues cn dy f) = []"
  by (simp add: film_issues_def Let_def)

lemma no_total_in_day_issues: "filter is_total_issue (day_issues cn grp) = []"
proof -
  have "filter is_total_issue (concat (map (film_issues cn dy) fs)) = []"
    for dy and fs :: "'a film list"
    by (induction fs) (simp_all add: no_total_in_film_issues)
  then show ?thesis
    by (cases grp) (simp add: day_issues_def count_issues_def duplicate_issues_def Let_def)
qed

lemma no_total_in_cinema_issues: "filter is_total_issue (cinema_issues c) = []"
proof -
  have "filter is_total_issue (concat (map (day_issues cn) grps)) = []"
    for cn and grps :: "(string \<times> 'a film list) list"
    by (induction grps) (simp_all add: no_total_in_day_issues)
  then show ?thesis by (simp add: cinema_issues_def)
qed

lemma no_total_in_all_cinema_issues:
  "filter is_total_issue (concat (map cinema_issues cs)) = []"
  by (induction cs) (simp_all add: no_total_in_cinema_issues)

lemma counted_cinemas_distinct: "distinct (map name_of cs) \<Longrightarrow> counted_cinemas cs = cs"
  by (induction cs) auto

lemma no_count_in_film_issues:
  "filter is_count_issue (concat (map (film_issues cn dy) fs)) = []"
  by (induction fs) (simp_all add: film_issues_def Let_def)

lemma no_count_in_film_warnings:
  "filter is_count_warning (concat (map (film_warnings cn dy) fs)) = []"
  by (induction fs) (simp_all add: film_warnings_def)

lemma count_issues_of_day:
  "filter is_count_issue (day_issues cn (dy, fs)) = count_issues cn dy fs"
  by (simp add: day_issues_def no_count_in_film_issues count_issues_def duplicate_issues_def
      Let_def)

lemma count_warnings_of_day:
  "filter is_count_warning (day_warnings cn (dy, fs)) = count_warnings cn dy fs"
  by (simp add: day_warnings_def no_count_in_film_warnings count_warnings_def)

lemma film_defaults_gets [simp]:
  "get_or (title (film_defaults f)) ''Unknown'' = get_or (title f) ''Unknown''"
  "get_or (showtimes (film_defaults f)) [] = get_or (showtimes f) []"
  "day_of (film_defaults f) = day_of f"
  by (simp_all add: film_defaults_def get_or_def day_of_def)

lemma film_issues_defaults [simp]:
  "film_issues cn dy (film_defaults f) = film_issues cn dy f"
  by (simp add: film_issues_def)

lemma film_warnings_defaults [simp]:
  "film_warnings cn dy (film_defaults f) = film_warnings cn dy f"
  by (simp add: film_warnings_def)

lemma count_titles_defaults:
  "count_titles (map film_defaults fs) acc = count_titles fs acc"
  by (induction fs arbitrary: acc) simp_all

lemma day_issues_defaults:
  "day_issues cn (dy, map film_defaults fs) = day_issues cn (dy, fs)"
  by (simp add: day_issues_def count_issues_def duplicate_issues_def count_titles_defaults
      comp_def)

lemma day_warnings_defaults:
  "day_warnings cn (dy, map film_defaults fs) = day_warnings cn (dy, fs)"
  by (simp add: day_warnings_def count_warnings_def comp_def)

lemma day_groups_defaults:
  "day_groups (map film_defaults fs) =
     map (\<lambda>(dy, g). (dy, map film_defaults g)) (day_groups fs)"
  by (simp add: day_groups_def filter_map comp_def)

lemma cinema_defaults_gets [simp]:
  "get_or (name (cinema_defaults c)) ''Unknown'' = get_or (name c) ''Unknown''"
  "get_or (films (cinema_defaults c)) [] = map film_defaults (get_or (films c) [])"
  "name_of (cinema_defaults c) = name_of c"
  by (simp_all add: cinema_defaults_def get_or_def name_of_def)

lemma cinema_issues_defaults [simp]: "cinema_issues (cinema_defaults c) = cinema_issues c"
  by (simp add: cinema_issues_def day_groups_defaults comp_def case_prod_unfold
      day_issues_defaults [unfolded case_prod_unfold])

lemma cinema_warnings_defaults [simp]:
  "cinema_warnings (cinema_defaults c) = cinema_warnings c"
  by (simp add: cinema_warnings_def day_groups_defaults comp_def case_prod_unfold
      day_warnings_defaults [unfolded case_prod_unfold])

lemma stats_entry_defaults [simp]: "stats_entry (cinema_defaults c) = stats_entry c"
  by (simp add: stats_entry_def day_groups_defaults comp_def case_prod_unfold)

lemma stats_after_defaults: "stats_after (map cinema_defaults cs) sts = stats_after cs sts"
  by (induction cs arbitrary: sts) simp_all

lemma counted_cinemas_defaults:
  "counted_cinemas (map cinema_defaults cs) = map cinema_defaults (counted_cinemas cs)"
  by (induction cs) (simp_all add: comp_def)

lemma counted_total_defaults: "counted_total (map cinema_defaults cs) = counted_total cs"
  by (simp add: counted_total_def counted_cinemas_defaults comp_def)

lemma validate_data_defaults: "validate_data (data_defaults data) now = validate_data data now"
proof -
  have cs: "get_or (cinemas (data_defaults data)) [] =
      map cinema_defaults (get_or (cinemas data) [])"
    by (simp add: data_defaults_def get_or_def)
  have iss: "map cinema_issues (map cinema_defaults cs) = map cinema_issues cs"
    and wrn: "map cinema_warnings (map cinema_defaults cs) = map cinema_warnings cs"
    for cs :: "'a cinema list"
    by simp_all
  show ?thesis
    unfolding validate_data_eq Let_def cs iss wrn stats_after_defaults counted_total_defaults
    by (rule refl)
qed

lemma global_issue_count:
  "length (filter is_total_issue (issues (validate_data data now))) =
     (if 500 < counted_total (get_or (cinemas data) []) then 1 else 0)"
  by (simp add: issues_validate_data no_total_in_all_cinema_issues)

lemma summary_total_counted:
  "summary_total_films (summary (validate_data data now)) =
     counted_total (get_or (cinemas data) [])"
  by (simp add: validate_data_eq Let_def)

subsection \<open>The global ceiling\<close>

text \<open>
  C4. The claim is that one global issue is emitted exactly when the films of all cinema
  records number more than 500, every record counted. Line 79 sums \<^verbatim>\<open>total_films\<close> over
  \<^verbatim>\<open>stats.values()\<close>, and line 34 stores the entry of a cinema under its name, so that
  of several records with one name only the last is counted (\<open>global_issue_count\<close>,
  \<open>stats_total_counted\<close>). Two records named \<^verbatim>\<open>Odeon\<close> with 500 films and 1 film hold
  501 films; the Validator reports a total of 1 and no global issue. With a single record
  the limit is where the claim puts it: one global issue for 501 films, none for 500.
\<close>

theorem same_name_total_undercounted:
  "sum_list (map (\<lambda>c. length (get_or (films c) [])) (get_or (cinemas same_name_data) [])) = 501 \<and>
   length (filter is_total_issue (issues (validate_data same_name_data ''now''))) = 0 \<and>
   summary_total_films (summary (validate_data same_name_data ''now'')) = 1 \<and>
   length (filter is_total_issue (issues (validate_data (big_data 501) ''now''))) = 1 \<and>
   length (filter is_total_issue (issues (validate_data (big_data 500) ''now''))) = 0"
proof -
  have cs: "get_or (cinemas (dataset_of cs)) [] = cs" for cs
    by (simp add: dataset_of_def get_or_def)
  have fs: "get_or (films (cinema_of n fs)) [] = fs" for n fs
    by (simp add: cinema_of_def get_or_def)
  have nm: "name_of (cinema_of n fs) = n" for n fs
    by (simp add: cinema_of_def name_of_def get_or_def)
  have "counted_total (get_or (cinemas same_name_data) []) = 1"
    by (simp add: same_name_data_def cs counted_total_def fs nm)
  moreover have "counted_total (get_or (cinemas (big_data n)) []) = n" for n
    by (simp add: big_data_def cs counted_total_def fs nm)
  ultimately show ?thesis
    by (simp add: global_issue_count summary_total_counted)
      (simp add: same_name_data_def cs fs)
qed

subsection \<open>The film count of a day\<close>

lemma count_issues_in_cinema:
  "filter is_count_issue (cinema_issues c) =
     concat (map (\<lambda>(dy, day_films). count_issues (name_of c) dy day_films)
               (day_groups (get_or (films c) [])))"
proof -
  have "filter is_count_issue (concat (map (day_issues cn) grps)) =
      concat (map (\<lambda>(dy, day_films). count_issues cn dy day_films) grps)"
    for cn and grps :: "(string \<times> 'a film list) list"
    by (induction grps) (auto simp: count_issues_of_day)
  then show ?thesis by (simp add: cinema_issues_def name_of_def)
qed

lemma count_warnings_in_cinema:
  "filter is_count_warning (cinema_warnings c) =
     concat (map (\<lambda>(dy, day_films). count_warnings (name_of c) dy day_films)
               (day_groups (get_or (films c) [])))"
proof -
  have "filter is_count_warning (concat (map (day_warnings cn) grps)) =
      concat (map (\<lambda>(dy, day_films). count_warnings cn dy day_films) grps)"
    for cn and grps :: "(string \<times> 'a film list) list"
    by (induction grps) (auto simp: count_warnings_of_day)
  then show ?thesis by (simp add: cinema_warnings_def name_of_def)
qed

lemma count_issues_in_report:
  "filter is_count_issue (issues (validate_data data now)) =
     concat (map (\<lambda>c. concat (map (\<lambda>(dy, day_films). count_issues (name_of c) dy day_films)
                                 (day_groups (get_or (films c) []))))
               (get_or (cinemas data) []))"
proof -
  have "filter is_count_issue (concat (map cinema_issues cs)) =
      concat (map (\<lambda>c. concat (map (\<lambda>(dy, day_films). count_issues (name_of c) dy day_films)
                                 (day_groups (get_or (films c) [])))) cs)"
    for cs :: "'a cinema list"
    by (induction cs) (simp_all add: count_issues_in_cinema)
  then show ?thesis by (simp add: issues_validate_data)
qed

lemma count_warnings_in_report:
  "filter is_count_warning (warnings (validate_data data now)) =
     concat (map (\<lambda>c. concat (map (\<lambda>(dy, day_films). count_warnings (name_of c) dy day_films)
                                 (day_groups (get_or (films c) []))))
               (get_or (cinemas data) []))"
proof -
  have "filter is_count_warning (concat (map cinema_warnings cs)) =
      concat (map (\<lambda>c. concat (map (\<lambda>(dy, day_films). count_warnings (name_of c) dy day_films)
                                 (day_groups (get_or (films c) [])))) cs)"
    for cs :: "'a cinema list"
    by (induction cs) (simp_all add: count_warnings_in_cinema)
  then show ?thesis by (simp add: warnings_validate_data)
qed

lemma count_warnings_band:
  "count_warnings cn d fs =
    (if 20 < length fs \<and> length fs \<le> 30 then [HighFilmCount cn d (length fs)] else [])"
  by (simp add: count_warnings_def)

text \<open>
  C5. For every dataset, the film-count issues of the report are, cinema after cinema and
  group after group, exactly one issue for each group of more than 30 films and none for
  any other group; the film-count warnings of the report are exactly one warning for each
  group of more than 20 and at most 30 films and none for any other group. So a group with
  more than 30 films produces one issue and no warning for this rule, and a group with
  more than 20 but at most 30 films one warning and no issue. The same holds of the loop
  body \<^const>\<open>check_day\<close> on any group, whatever was accumulated before it.
\<close>

theorem film_count_thresholds_exclusive:
  "filter is_count_issue (issues (validate_data data now)) =
     concat (map (\<lambda>c. concat (map (\<lambda>(dy, day_films).
                    if 30 < length day_films
                    then [TooManyFilms (name_of c) dy (length day_films)] else [])
                  (day_groups (get_or (films c) []))))
               (get_or (cinemas data) [])) \<and>
   filter is_count_warning (warnings (validate_data data now)) =
     concat (map (\<lambda>c. concat (map (\<lambda>(dy, day_films).
                    if 20 < length day_films \<and> length day_films \<le> 30
                    then [HighFilmCount (name_of c) dy (length day_films)] else [])
                  (day_groups (get_or (films c) []))))
               (get_or (cinemas data) [])) \<and>
   filter is_count_issue (fst (check_day cinema_name (dy, day_films) (iss, wrn))) =
     filter is_count_issue iss @
     (if 30 < length day_films
      then [TooManyFilms cinema_name dy (length day_films)] else []) \<and>
   filter is_count_warning (snd (check_day cinema_name (dy, day_films) (iss, wrn))) =
     filter is_count_warning wrn @
     (if 20 < length day_films \<and> length day_films \<le> 30
      then [HighFilmCount cinema_name dy (length day_films)] else [])"
proof (intro conjI)
  show "filter is_count_issue (issues (validate_data data now)) =
     concat (map (\<lambda>c. concat (map (\<lambda>(dy, day_films).
                    if 30 < length day_films
                    then [TooManyFilms (name_of c) dy (length day_films)] else [])
                  (day_groups (get_or (films c) []))))
               (get_or (cinemas data) []))"
    by (simp add: count_issues_in_report count_issues_def)
  show "filter is_count_warning (warnings (validate_data data now)) =
     concat (map (\<lambda>c. concat (map (\<lambda>(dy, day_films).
                    if 20 < length day_films \<and> length day_films \<le> 30
                    then [HighFilmCount (name_of c) dy (length day_films)] else [])
                  (day_groups (get_or (films c) []))))
               (get_or (cinemas data) []))"
    by (simp add: count_warnings_in_report count_warnings_band)
  show "filter is_count_issue (fst (check_day cinema_name (dy, day_films) (iss, wrn))) =
     filter is_count_issue iss @
     (if 30 < length day_films
      then [TooManyFilms cinema_name dy (length day_films)] else [])"
    by (simp add: check_day_eq count_issues_of_day count_issues_def)
  show "filter is_count_warning (snd (check_day cinema_name (dy, day_films) (iss, wrn))) =
     filter is_count_warning wrn @
     (if 20 < length day_films \<and> length day_films \<le> 30
      then [HighFilmCount cinema_name dy (length day_films)] else [])"
    by (simp add: check_day_eq count_warnings_of_day count_warnings_band)
qed

text \<open>
  On \<^const>\<open>busy_data\<close>: 31 films on Monday and 25 on Tuesday in \<^verbatim>\<open>Odeon\<close>, 20 on Monday in
  \<^verbatim>\<open>Vue\<close>. The report has one film-count issue, for Monday in \<^verbatim>\<open>Odeon\<close>, and one film-count
  warning, for Tuesday in \<^verbatim>\<open>Odeon\<close>.
\<close>

theorem film_count_thresholds_exclusive_witness:
  "filter is_count_issue (issues (validate_data busy_data ''now'')) =
     [TooManyFilms ''Odeon'' ''Mon'' 31] \<and>
   filter is_count_warning (warnings (validate_data busy_data ''now'')) =
     [HighFilmCount ''Odeon'' ''Tue'' 25]"
proof -
  have a: "concat (map (\<lambda>c. concat (map (\<lambda>(dy, day_films).
                    if 30 < length day_films
                    then [TooManyFilms (name_of c) dy (length day_films)] else [])
                  (day_groups (get_or (films c) []))))
               (get_or (cinemas busy_data) [])) = [TooManyFilms ''Odeon'' ''Mon'' 31]"
    by code_simp
  have b: "concat (map (\<lambda>c. concat (map (\<lambda>(dy, day_films).
                    if 20 < length day_films \<and> length day_films \<le> 30
                    then [HighFilmCount (name_of c) dy (length day_films)] else [])
                  (day_groups (get_or (films c) []))))
               (get_or (cinemas busy_data) [])) = [HighFilmCount ''Odeon'' ''Tue'' 25]"
    by code_simp
  from film_count_thresholds_exclusive [of busy_data "''now''", THEN conjunct1]
    film_count_thresholds_exclusive [of busy_data "''now''", THEN conjunct2, THEN conjunct1]
  show ?thesis unfolding a b by (rule conjI)
qed

subsection \<open>Missing keys\<close>

text \<open>
  C7, as the code has it. For every parsed JSON object whose present keys have their
  documented types, the Validator returns a report, and it is the report of the same data
  with every missing key set to its default: \<^verbatim>\<open>cinemas\<close> and \<^verbatim>\<open>films\<close> to the empty list,
  \<^verbatim>\<open>name\<close> and \<^verbatim>\<open>title\<close> to \<^verbatim>\<open>Unknown\<close>, \<^verbatim>\<open>day\<close> to \<^verbatim>\<open>unknown\<close>, \<^verbatim>\<open>showtimes\<close> to the empty
  list. A file that cannot be read or parsed gives the failure value with the text of the
  exception.
\<close>

theorem missing_fields_default:
  "validate_cinema_data (Parsed (JObject (data :: 'x dataset))) now =
     Inr (Report (validate_data (data_defaults data) now)) \<and>
   validate_cinema_data (Unreadable msg :: 'x source) now = Inr (Failure msg) \<and>
   validate_cinema_data (Unparseable msg :: 'x source) now = Inr (Failure msg)"
  by (simp add: validate_cinema_data_def validate_data_defaults)

theorem missing_fields_default_witness:
  "validate_cinema_data (Parsed (JObject sparse_data)) ''now'' =
     Inr (Report
       \<lparr>valid = True, timestamp = ''now'',
        stats = [(''Unknown'', \<lparr>total_films = 0, days = 0, films_by_day = []\<rparr>)],
        issues = [],
        warnings = [NoShowtimes ''Unknown'' ''unknown'' ''Unknown''],
        summary = \<lparr>total_issues = 0, total_warnings = 1, summary_total_films = 0\<rparr>\<rparr>) \<and>
   validate_cinema_data
     (Parsed (JObject \<lparr>cinemas = None, dataset_other = [(''scraped'', ())]\<rparr>)) ''now'' =
     Inr (Report
       \<lparr>valid = True, timestamp = ''now'', stats = [], issues = [], warnings = [],
        summary = \<lparr>total_issues = 0, total_warnings = 0, summary_total_films = 0\<rparr>\<rparr>) \<and>
   validate_cinema_data (Unparseable ''Expecting value'' :: unit source) ''now'' =
     Inr (Failure ''Expecting value'')"
proof -
  have a: "validate_data (data_defaults sparse_data) ''now'' =
       \<lparr>valid = True, timestamp = ''now'',
        stats = [(''Unknown'', \<lparr>total_films = 0, days = 0, films_by_day = []\<rparr>)],
        issues = [],
        warnings = [NoShowtimes ''Unknown'' ''unknown'' ''Unknown''],
        summary = \<lparr>total_issues = 0, total_warnings = 1, summary_total_films = 0\<rparr>\<rparr>"
    by code_simp
  have b: "validate_data
       (data_defaults \<lparr>cinemas = None, dataset_other = [(''scraped'', ())]\<rparr>) ''now'' =
       \<lparr>valid = True, timestamp = ''now'', stats = [], issues = [], warnings = [],
        summary = \<lparr>total_issues = 0, total_warnings = 0, summary_total_films = 0\<rparr>\<rparr>"
    by code_simp
  from missing_fields_default [of sparse_data "''now''" "''Expecting value''"]
    missing_fields_default
      [of "\<lparr>cinemas = None, dataset_other = [(''scraped'', ())]\<rparr>" "''now''" "''Expecting value''"]
  show ?thesis
    unfolding a b by simp
qed

text \<open>
  The claim as stated covers every input that parses. A file whose top-level value is not
  an object (\<^verbatim>\<open>[]\<close>, say) parses, and \<^verbatim>\<open>data.get\<close> on line 24, outside the \<^verbatim>\<open>try\<close>, raises
  \<^verbatim>\<open>AttributeError\<close>.
\<close>

theorem non_object_counterexample:
  "validate_cinema_data (Parsed NonObject :: unit source) ''2026-01-01T00:00:00'' =
     Inl AttributeError"
  by (simp add: validate_cinema_data_def)

subsection \<open>The order of the messages\<close>

text \<open>
  C8. For every dataset, the issues of the report are those of the cinemas in input order,
  for each cinema those of its days in the order in which the days first appear, for each
  day the issues of rules 1 and 2 film by film, then the film-count issue, then the
  duplicate-title issue (\<^const>\<open>cinema_issues\<close>, \<^const>\<open>day_groups\<close>, \<^const>\<open>day_issues\<close>);
  the global issue, if any, comes last. The warnings are in the same order: for each day the
  warning of rule 3 film by film, then the film-count warning.
\<close>

theorem issues_in_evaluation_order:
  "issues (validate_data data now) =
     concat (map cinema_issues (get_or (cinemas data) [])) @
     (if counted_total (get_or (cinemas data) []) > 500
      then [TotalFilms (counted_total (get_or (cinemas data) []))] else []) \<and>
   warnings (validate_data data now) =
     concat (map cinema_warnings (get_or (cinemas data) []))"
  by (simp add: issues_validate_data warnings_validate_data)

theorem issues_in_evaluation_order_witness:
  "issues (validate_data listing_data ''now'') =
     [TooManyShowtimes ''Odeon'' ''Mon'' ''Alien'' 5,
      DuplicateShowtimes ''Odeon'' ''Mon'' ''Alien'',
      DuplicateFilms ''Odeon'' ''Mon'' [(''Alien'', 2)],
      DuplicateShowtimes ''Vue'' ''Tue'' ''Casino''] \<and>
   warnings (validate_data listing_data ''now'') = [NoShowtimes ''Odeon'' ''Tue'' ''Brazil'']"
proof -
  have a: "concat (map cinema_issues (get_or (cinemas listing_data) [])) @
     (if counted_total (get_or (cinemas listing_data) []) > 500
      then [TotalFilms (counted_total (get_or (cinemas listing_data) []))] else []) =
     [TooManyShowtimes ''Odeon'' ''Mon'' ''Alien'' 5,
      DuplicateShowtimes ''Odeon'' ''Mon'' ''Alien'',
      DuplicateFilms ''Odeon'' ''Mon'' [(''Alien'', 2)],
      DuplicateShowtimes ''Vue'' ''Tue'' ''Casino'']"
    by code_simp
  have b: "concat (map cinema_warnings (get_or (cinemas listing_data) [])) =
     [NoShowtimes ''Odeon'' ''Tue'' ''Brazil'']"
    by code_simp
  from issues_in_evaluation_order [of listing_data "''now''"] show ?thesis
    unfolding a b .
qed

end
